theory Spec2Isabelle
  imports Main "HOL-Library.Word"
begin

section \<open>The example script \<open>examples/python_example/demo.py\<close>\<close>

text \<open>
  The script imports the binding module, reads \<open>sys.argv\<close>, reads the input file as
  bytes, calls \<open>dm2xcod.convert_docx\<close> on them and prints the returned text or writes
  it to the output path. Everything it does is an effect on its surroundings, so the
  model has two parts: a \<open>world\<close>, which answers every question the script asks
  (the arguments, what the import gives, what a file read returns, whether a file can be
  opened and written, whether standard output takes a line and can be flushed), and a
  \<open>state\<close>, which records every effect the script has (lines printed, files read,
  calls of the conversion function, files written).
\<close>

subsection \<open>Values\<close>

type_synonym bytes = "8 word list"

type_synonym path = string

text \<open>
  What a statement can raise, by the classes that the script's handlers tell apart:
  \<^item> \<open>ImportError txt\<close>: an instance of \<open>ImportError\<close> (a subclass of \<open>Exception\<close>);
  \<^item> \<open>Exception txt\<close>: any other instance of \<open>Exception\<close>;
  \<^item> \<open>SystemExit n\<close>: what \<open>sys.exit(n)\<close> raises, not an instance of \<open>Exception\<close>;
  \<^item> \<open>BaseException txt\<close>: any other error that is not an instance of \<open>Exception\<close>
    (a panic of the binding, for one).
  \<open>txt\<close> is the text \<open>str(e)\<close>. Interrupts that arrive from outside while the script
  runs are not part of the model.
\<close>

datatype exn =
    ImportError string
  | Exception string
  | SystemExit int
  | BaseException string

text \<open>\<open>except ImportError\<close> catches the first class only.\<close>

fun is_import_error :: "exn \<Rightarrow> bool" where
  "is_import_error (ImportError txt) = True"
| "is_import_error (Exception txt) = False"
| "is_import_error (SystemExit n) = False"
| "is_import_error (BaseException txt) = False"

text \<open>
  \<open>except Exception as e\<close> catches the first two classes; \<open>exception_text e\<close> is then
  \<open>str(e)\<close>.
\<close>

fun exception_text :: "exn \<Rightarrow> string option" where
  "exception_text (ImportError txt) = Some txt"
| "exception_text (Exception txt) = Some txt"
| "exception_text (SystemExit n) = None"
| "exception_text (BaseException txt) = None"


text \<open>
  The two non-ASCII signs of the script's messages, as their UTF-8 bytes:
  U+274C (cross mark) and U+2705 (check mark).
\<close>

definition cross_mark :: string where
  "cross_mark = [CHR 0xE2, CHR 0x9D, CHR 0x8C]"

definition check_mark :: string where
  "check_mark = [CHR 0xE2, CHR 0x9C, CHR 0x85]"

definition quoted :: "string \<Rightarrow> string" where
  "quoted s = [CHR 0x27] @ s @ [CHR 0x27]"

subsection \<open>The world and the state\<close>

record world =
  argv0 :: string
  params :: "string list"
  import_dm2xcod :: "exn + (bytes \<Rightarrow> exn + string) option"
  read_file :: "path \<Rightarrow> exn + bytes"
  open_write :: "path \<Rightarrow> exn option"
  write_text :: "path \<Rightarrow> string \<Rightarrow> exn option"
  stdout_write :: "string list \<Rightarrow> string \<Rightarrow> exn option"
  stdout_flush :: "string list \<Rightarrow> bool"

text \<open>
  \<^item> \<open>argv0\<close> and \<open>params\<close>: \<open>sys.argv[0]\<close> (the script name, always present
    when a script runs) and \<open>sys.argv[1:]\<close>.
  \<^item> \<open>import_dm2xcod\<close>: what \<open>import dm2xcod\<close> gives: the error raised, or the
    module, which is \<open>Some f\<close> when it has the function \<open>convert_docx\<close> (\<open>f\<close> returns
    the markup text or raises) and \<open>None\<close> when it has no such attribute.
  \<^item> \<open>read_file p\<close>: what \<open>open(p, "rb")\<close> followed by \<open>f.read()\<close> gives, the
    whole content or the error raised.
  \<^item> \<open>open_write p\<close>: the error raised by \<open>open(p, "w", encoding="utf-8")\<close>, if any.
  \<^item> \<open>write_text p s\<close>: the error raised by \<open>f.write(s)\<close> (or by closing the file) on
    the file opened at \<open>p\<close>, if any.
  \<^item> \<open>stdout_write ls l\<close>: the error raised by \<open>print(l)\<close> after the lines \<open>ls\<close> have
    been printed, if any (a line that standard output cannot encode, a closed stream).
  \<^item> \<open>stdout_flush ls\<close>: whether the interpreter can flush standard output when the
    process ends after printing the lines \<open>ls\<close>.
\<close>

definition sys_argv :: "world \<Rightarrow> string list" where
  "sys_argv w = argv0 w # params w"

record state =
  stdout :: "string list"
  reads :: "path list"
  calls :: "bytes list"
  files :: "path \<rightharpoonup> string"

text \<open>
  \<^item> \<open>stdout\<close>: the arguments of the \<open>print\<close> calls that succeeded, in order (each
    is written to standard output followed by a newline).
  \<^item> \<open>reads\<close>: the paths opened for reading, in order.
  \<^item> \<open>calls\<close>: the arguments \<open>convert_docx\<close> was called with, in order.
  \<^item> \<open>files\<close>: the text files that the script created or replaced, opened with
    encoding \<open>utf-8\<close>, with the text written to each.
\<close>

definition init :: state where
  "init = \<lparr>stdout = [], reads = [], calls = [], files = Map.empty\<rparr>"

definition stdout_text :: "state \<Rightarrow> string" where
  "stdout_text s = concat (map (\<lambda>l. l @ [CHR 0x0A]) (stdout s))"

subsection \<open>Statements\<close>

text \<open>
  A statement takes the state and gives \<open>Inr\<close> its value or \<open>Inl\<close> the error it raises,
  with the state it leaves. \<open>then_do r f\<close> runs \<open>f\<close> after a statement that gave \<open>r\<close>:
  an error raised by the first statement skips the rest.
\<close>

definition then_do ::
  "(exn + 'a) \<times> state \<Rightarrow> ('a \<Rightarrow> state \<Rightarrow> (exn + 'b) \<times> state) \<Rightarrow> (exn + 'b) \<times> state" where
  "then_do r f = (case r of (Inl e, s) \<Rightarrow> (Inl e, s) | (Inr x, s) \<Rightarrow> f x s)"

definition print :: "world \<Rightarrow> string \<Rightarrow> state \<Rightarrow> (exn + unit) \<times> state" where
  "print w l s =
     (case stdout_write w (stdout s) l of
        Some e \<Rightarrow> (Inl e, s)
      | None \<Rightarrow> (Inr (), s\<lparr>stdout := stdout s @ [l]\<rparr>))"

definition sys_exit :: "int \<Rightarrow> state \<Rightarrow> (exn + 'a) \<times> state" where
  "sys_exit n s = (Inl (SystemExit n), s)"

definition open_rb_read :: "world \<Rightarrow> path \<Rightarrow> state \<Rightarrow> (exn + bytes) \<times> state" where
  "open_rb_read w p s = (read_file w p, s\<lparr>reads := reads s @ [p]\<rparr>)"

text \<open>
  \<open>dm2xcod.convert_docx\<close> looks the attribute up before the call: a module without it
  raises \<open>AttributeError\<close>, an instance of \<open>Exception\<close>.
\<close>

definition no_attribute_text :: string where
  "no_attribute_text =
     ''module '' @ quoted ''dm2xcod'' @ '' has no attribute '' @ quoted ''convert_docx''"

definition get_convert_docx ::
  "(bytes \<Rightarrow> exn + string) option \<Rightarrow> state \<Rightarrow> (exn + (bytes \<Rightarrow> exn + string)) \<times> state" where
  "get_convert_docx m s =
     (case m of
        None \<Rightarrow> (Inl (Exception no_attribute_text), s)
      | Some convert_docx \<Rightarrow> (Inr convert_docx, s))"

definition call_convert ::
  "(bytes \<Rightarrow> exn + string) \<Rightarrow> bytes \<Rightarrow> state \<Rightarrow> (exn + string) \<times> state" where
  "call_convert convert_docx d s = (convert_docx d, s\<lparr>calls := calls s @ [d]\<rparr>)"

text \<open>Mode \<open>"w"\<close> creates the file or truncates it; a failed open leaves it alone.\<close>

definition open_w :: "world \<Rightarrow> path \<Rightarrow> state \<Rightarrow> (exn + unit) \<times> state" where
  "open_w w p s =
     (case open_write w p of
        Some e \<Rightarrow> (Inl e, s)
      | None \<Rightarrow> (Inr (), s\<lparr>files := (files s)(p \<mapsto> [])\<rparr>))"

definition f_write :: "world \<Rightarrow> path \<Rightarrow> string \<Rightarrow> state \<Rightarrow> (exn + unit) \<times> state" where
  "f_write w p txt s =
     (case write_text w p txt of
        Some e \<Rightarrow> (Inl e, s)
      | None \<Rightarrow> (Inr (), s\<lparr>files := (files s)(p \<mapsto> txt)\<rparr>))"

subsection \<open>The messages\<close>

definition not_installed_msg :: string where
  "not_installed_msg =
     cross_mark @ '' dm2xcod not installed. Install with: pip install dm2xcod''"

definition usage_msg :: "string \<Rightarrow> string" where
  "usage_msg prog = ''Usage: '' @ prog @ '' <input.docx> [output.md]''"

definition reading_msg :: "path \<Rightarrow> string" where
  "reading_msg input_file = ''Reading '' @ quoted input_file @ '' as bytes...''"

definition converted_msg :: "path \<Rightarrow> path \<Rightarrow> string" where
  "converted_msg input_file output_file =
     check_mark @ '' Converted '' @ quoted input_file @ '' to '' @ quoted output_file"

definition error_msg :: "string \<Rightarrow> string" where
  "error_msg txt = cross_mark @ '' Error: '' @ txt"

subsection \<open>\<open>main\<close>\<close>

text \<open>
  The \<open>import\<close> with its handler: an \<open>ImportError\<close> prints the hint and exits with
  status 1; any other error of the import is not caught.
\<close>

definition import_block ::
  "world \<Rightarrow> state \<Rightarrow> (exn + (bytes \<Rightarrow> exn + string) option) \<times> state" where
  "import_block w s =
     (case import_dm2xcod w of
        Inr m \<Rightarrow> (Inr m, s)
      | Inl e \<Rightarrow>
          if is_import_error e
          then then_do (print w not_installed_msg s) (\<lambda>_. sys_exit 1)
          else (Inl e, s))"

text \<open>
  \<open>if output_file:\<close> tests the truth value of \<open>output_file\<close>: \<open>None\<close> and the
  empty string are false, every other string is true.
\<close>

fun truthy :: "string option \<Rightarrow> bool" where
  "truthy None = False"
| "truthy (Some s) = (s \<noteq> [])"

text \<open>The body of \<open>if output_file:\<close>, for an output path \<open>out\<close>.\<close>

definition write_output ::
  "world \<Rightarrow> path \<Rightarrow> path \<Rightarrow> string \<Rightarrow> state \<Rightarrow> (exn + unit) \<times> state" where
  "write_output w input_file out markdown s =
     then_do (open_w w out s) (\<lambda>_ s1.
     then_do (f_write w out markdown s1) (\<lambda>_ s2.
     print w (converted_msg input_file out) s2))"

text \<open>
  The \<open>try\<close> block: it returns \<open>Inl e\<close> when a statement raises \<open>e\<close>, with the
  state reached at that statement.
\<close>

definition try_block ::
  "world \<Rightarrow> (bytes \<Rightarrow> exn + string) option \<Rightarrow> path \<Rightarrow> string option \<Rightarrow> state
     \<Rightarrow> (exn + unit) \<times> state" where
  "try_block w m input_file output_file s =
     then_do (print w (reading_msg input_file) s) (\<lambda>_ s1.
     then_do (open_rb_read w input_file s1) (\<lambda>data s2.
     then_do (get_convert_docx m s2) (\<lambda>convert_docx s3.
     then_do (call_convert convert_docx data s3) (\<lambda>markdown s4.
       if truthy output_file
       then (case output_file of
               Some out \<Rightarrow> write_output w input_file out markdown s4
             | None \<Rightarrow> print w markdown s4)
       else print w markdown s4))))"

text \<open>
  The handler \<open>except Exception as e\<close>: an instance of \<open>Exception\<close> is printed and
  the script exits with status 1; any other error passes through.
\<close>

definition except_Exception :: "world \<Rightarrow> (exn + unit) \<times> state \<Rightarrow> (exn + unit) \<times> state" where
  "except_Exception w r =
     (case r of
        (Inr u, s) \<Rightarrow> (Inr u, s)
      | (Inl e, s) \<Rightarrow>
          (case exception_text e of
             Some txt \<Rightarrow> then_do (print w (error_msg txt) s) (\<lambda>_. sys_exit 1)
           | None \<Rightarrow> (Inl e, s)))"

text \<open>
  \<open>main\<close> returns normally (\<open>Inr\<close>) or ends with the error that nothing caught
  (\<open>Inl\<close>), \<open>SystemExit\<close> from \<open>sys.exit\<close> included.
\<close>

definition main :: "world \<Rightarrow> (exn + unit) \<times> state" where
  "main w =
     then_do (import_block w init) (\<lambda>m s.
       if length (sys_argv w) < 2
       then then_do (print w (usage_msg (sys_argv w ! 0)) s) (\<lambda>_. sys_exit 1)
       else
         (let input_file = sys_argv w ! 1;
              output_file = (if length (sys_argv w) > 2 then Some (sys_argv w ! 2) else None)
          in except_Exception w (try_block w m input_file output_file s)))"

subsection \<open>The process\<close>

text \<open>
  The interpreter turns the end of \<open>main\<close> into the exit status: 0 after a normal
  return, the low eight bits of \<open>n\<close> after \<open>SystemExit n\<close>, and 1 after any other
  error (whose traceback it writes to standard error).
\<close>

fun exit_code :: "exn + unit \<Rightarrow> int" where
  "exit_code (Inr u) = 0"
| "exit_code (Inl (SystemExit n)) = n mod 256"
| "exit_code (Inl (ImportError txt)) = 1"
| "exit_code (Inl (Exception txt)) = 1"
| "exit_code (Inl (BaseException txt)) = 1"

text \<open>
  When the process ends the interpreter flushes standard output; if that fails the exit
  status is 120, whatever it was. \<open>run\<close> gives the final state and the exit status.
\<close>

definition run :: "world \<Rightarrow> state \<times> int" where
  "run w =
     (case main w of
        (r, s) \<Rightarrow> (s, if stdout_flush w (stdout s) then exit_code r else 120))"

subsection \<open>Sample surroundings\<close>

text \<open>
  A small world for the concrete runs below: the script is started as
  \<open>demo.py report.docx\<close>, the module is installed and returns a one-line document,
  \<open>report.docx\<close> is the only readable file, every path can be opened and written, and
  standard output takes every line.
\<close>

definition sample_docx :: bytes where
  "sample_docx = [0x50, 0x4B, 0x03, 0x04]"

definition convert_ok :: "bytes \<Rightarrow> exn + string" where
  "convert_ok d = Inr ''# Title''"

definition convert_fail :: "bytes \<Rightarrow> exn + string" where
  "convert_fail d = Inl (Exception ''not a document container'')"

definition sample_world :: world where
  "sample_world =
     \<lparr>argv0 = ''demo.py'',
      params = [''report.docx''],
      import_dm2xcod = Inr (Some convert_ok),
      read_file = (\<lambda>p. if p = ''report.docx'' then Inr sample_docx
                        else Inl (Exception ''No such file or directory'')),
      open_write = (\<lambda>p. None),
      write_text = (\<lambda>p txt. None),
      stdout_write = (\<lambda>ls l. None),
      stdout_flush = (\<lambda>ls. True)\<rparr>"

text \<open>
  Other answers of the surroundings: a conversion that panics (an error that is not an
  instance of \<open>Exception\<close>), a conversion that ends the process itself, and a standard
  output that takes ASCII text only.
\<close>

definition convert_panic :: "bytes \<Rightarrow> exn + string" where
  "convert_panic d = Inl (BaseException ''PanicException: index out of bounds'')"

definition convert_exit :: "bytes \<Rightarrow> exn + string" where
  "convert_exit d = Inl (SystemExit 3)"

definition ascii_stdout :: "string list \<Rightarrow> string \<Rightarrow> exn option" where
  "ascii_stdout ls l =
     (if list_all (\<lambda>c. (of_char c :: nat) < 128) l then None
      else Some (Exception ''codec cannot encode character''))"


section \<open>The style resolver of the conversion engine\<close>

text \<open>
  The conversion engine is not part of the example script. The definitions of this section
  follow the specification of the engine's style resolver: its data model, the component
  design of the Style/Format Resolver, and the cycle-safety property.
\<close>

subsection \<open>Data model\<close>

datatype StyleType = ParagraphStyle | CharacterStyle | TableStyle

text \<open>Formatting attributes; \<open>None\<close> is "not set here" and is inherited.\<close>

record Format =
  bold :: "bool option"
  italic :: "bool option"
  font_size :: "nat option"
  heading_level :: "nat option"

record StyleDefinition =
  style_id :: string
  human_name :: string
  style_type :: StyleType
  parent :: "string option"
  attributes :: Format

datatype ListKind = Ordered | Unordered

record NumberingDefinition =
  numbering_id :: string
  level_formats :: "ListKind list"

datatype DocumentNode =
    Paragraph "string option" "(string \<times> nat) option" "DocumentNode list"
  | Run "string option" Format string
  | Table "DocumentNode list"
  | TableRow "DocumentNode list"
  | TableCell "DocumentNode list"
  | Hyperlink string "DocumentNode list"
  | Image string string
  | LineBreak

text \<open>
  A paragraph carries its style identifier, its numbering reference (numbering identifier
  and level) and its children; a run carries its style identifier, its direct formatting
  and its text; a hyperlink its relationship identifier; an image its media entry name and
  alternative text.
\<close>

record ResolvedFormat =
  is_bold :: bool
  is_italic :: bool
  size_pt :: "nat option"
  heading_depth :: "nat option"

datatype ResolvedNode =
    RParagraph ResolvedFormat "(ListKind \<times> nat) option" "ResolvedNode list"
  | RRun ResolvedFormat string
  | RTable "ResolvedNode list"
  | RTableRow "ResolvedNode list"
  | RTableCell "ResolvedNode list"
  | RHyperlink string "ResolvedNode list"
  | RImage string string
  | RLineBreak

datatype ResolveError = CyclicStyle string | MissingReference string

subsection \<open>Merging formats\<close>

definition unformatted :: Format where
  "unformatted = \<lparr>bold = None, italic = None, font_size = None, heading_level = None\<rparr>"

definition or_else :: "'a option \<Rightarrow> 'a option \<Rightarrow> 'a option" where
  "or_else x y = (case x of Some v \<Rightarrow> Some v | None \<Rightarrow> y)"

text \<open>\<open>override child anc\<close>: the child's attributes win over the ancestor's.\<close>

definition override :: "Format \<Rightarrow> Format \<Rightarrow> Format" where
  "override child anc =
     \<lparr>bold = or_else (bold child) (bold anc),
      italic = or_else (italic child) (italic anc),
      font_size = or_else (font_size child) (font_size anc),
      heading_level = or_else (heading_level child) (heading_level anc)\<rparr>"

text \<open>The flat format of a node; the heading level is clamped to the depths 1 to 6.\<close>

definition flatten :: "Format \<Rightarrow> ResolvedFormat" where
  "flatten f =
     \<lparr>is_bold = (bold f = Some True),
      is_italic = (italic f = Some True),
      size_pt = font_size f,
      heading_depth = map_option (\<lambda>n. max 1 (min 6 n)) (heading_level f)\<rparr>"

subsection \<open>The walk along the inheritance chain\<close>

definition lookup :: "StyleDefinition list \<Rightarrow> string \<Rightarrow> StyleDefinition option" where
  "lookup styles sid = find (\<lambda>st. style_id st = sid) styles"

text \<open>
  Modelled from the spec: the resolution walk of the Style/Format Resolver, whose code is
  not among the sources. It follows the parent identifiers from a style to the root, the
  child's attributes overriding the ancestor's, and keeps the identifiers already visited
  on this walk; meeting one of them again fails with \<open>CyclicStyle\<close> naming it. An
  identifier with no definition degrades to no formatting.
\<close>

function walk :: "StyleDefinition list \<Rightarrow> string list \<Rightarrow> string \<Rightarrow> ResolveError + Format" where
  "walk styles visited sid =
     (if sid \<in> set visited then Inl (CyclicStyle sid)
      else case lookup styles sid of
             None \<Rightarrow> Inr unformatted
           | Some st \<Rightarrow>
               (case parent st of
                  None \<Rightarrow> Inr (attributes st)
                | Some p \<Rightarrow>
                    (case walk styles (sid # visited) p of
                       Inl e \<Rightarrow> Inl e
                     | Inr anc \<Rightarrow> Inr (override (attributes st) anc))))"
  by pat_completeness auto

text \<open>
  The walk ends on every style table, cyclic or not: each step adds a defined identifier
  to the visited ones, and the table defines finitely many.
\<close>

termination
proof (relation "measure (\<lambda>(styles, visited, sid). card (style_id ` set styles - set visited))")
  show "wf (measure (\<lambda>(styles, visited, sid). card (style_id ` set styles - set visited)))"
    by simp
next
  fix styles :: "StyleDefinition list" and visited :: "string list" and sid st p
  assume new: "sid \<notin> set visited" and found: "lookup styles sid = Some st"
  from found have "sid \<in> style_id ` set styles"
    by (auto simp: lookup_def find_Some_iff)
  with new have "style_id ` set styles - set (sid # visited)
      \<subset> style_id ` set styles - set visited"
    by auto
  then have "card (style_id ` set styles - set (sid # visited))
      < card (style_id ` set styles - set visited)"
    by (intro psubset_card_mono) auto
  then show "((styles, sid # visited, p), (styles, visited, sid))
      \<in> measure (\<lambda>(styles, visited, sid). card (style_id ` set styles - set visited))"
    by simp
qed

text \<open>
  The defining equation of \<open>walk\<close> rewrites a call into another call; it is used
  one step at a time.
\<close>

declare walk.simps [simp del]

subsection \<open>\<open>resolve\<close>\<close>

definition style_format :: "StyleDefinition list \<Rightarrow> string option \<Rightarrow> ResolveError + Format" where
  "style_format styles sref =
     (case sref of None \<Rightarrow> Inr unformatted | Some sid \<Rightarrow> walk styles [] sid)"

text \<open>
  A numbering reference resolves to the list kind of its level and the nesting level; a
  reference with no definition degrades to a plain paragraph.
\<close>

definition list_item ::
  "NumberingDefinition list \<Rightarrow> (string \<times> nat) option \<Rightarrow> (ListKind \<times> nat) option" where
  "list_item numbering nref =
     (case nref of
        None \<Rightarrow> None
      | Some (nid, level) \<Rightarrow>
          (case find (\<lambda>d. numbering_id d = nid) numbering of
             None \<Rightarrow> None
           | Some d \<Rightarrow>
               if level < length (level_formats d)
               then Some (level_formats d ! level, level) else None))"

text \<open>
  Modelled from the spec: the pass of the Style/Format Resolver over the tree, whose code
  is not among the sources. For each paragraph and run it walks the chain of the node's
  style, lets the direct formatting override the result, and stops at the first error.
\<close>

fun resolve_node ::
  "StyleDefinition list \<Rightarrow> NumberingDefinition list \<Rightarrow> DocumentNode
     \<Rightarrow> ResolveError + ResolvedNode"
and resolve_nodes ::
  "StyleDefinition list \<Rightarrow> NumberingDefinition list \<Rightarrow> DocumentNode list
     \<Rightarrow> ResolveError + ResolvedNode list" where
  "resolve_node styles numbering (Paragraph sref nref cs) =
     (case style_format styles sref of
        Inl e \<Rightarrow> Inl e
      | Inr f \<Rightarrow>
          (case resolve_nodes styles numbering cs of
             Inl e \<Rightarrow> Inl e
           | Inr rs \<Rightarrow> Inr (RParagraph (flatten f) (list_item numbering nref) rs)))"
| "resolve_node styles numbering (Run sref d txt) =
     (case style_format styles sref of
        Inl e \<Rightarrow> Inl e
      | Inr f \<Rightarrow> Inr (RRun (flatten (override d f)) txt))"
| "resolve_node styles numbering (Table cs) =
     (case resolve_nodes styles numbering cs of Inl e \<Rightarrow> Inl e | Inr rs \<Rightarrow> Inr (RTable rs))"
| "resolve_node styles numbering (TableRow cs) =
     (case resolve_nodes styles numbering cs of Inl e \<Rightarrow> Inl e | Inr rs \<Rightarrow> Inr (RTableRow rs))"
| "resolve_node styles numbering (TableCell cs) =
     (case resolve_nodes styles numbering cs of Inl e \<Rightarrow> Inl e | Inr rs \<Rightarrow> Inr (RTableCell rs))"
| "resolve_node styles numbering (Hyperlink rid cs) =
     (case resolve_nodes styles numbering cs of
        Inl e \<Rightarrow> Inl e
      | Inr rs \<Rightarrow> Inr (RHyperlink rid rs))"
| "resolve_node styles numbering (Image entry alt) = Inr (RImage entry alt)"
| "resolve_node styles numbering LineBreak = Inr RLineBreak"
| "resolve_nodes styles numbering [] = Inr []"
| "resolve_nodes styles numbering (n # ns) =
     (case resolve_node styles numbering n of
        Inl e \<Rightarrow> Inl e
      | Inr r \<Rightarrow>
          (case resolve_nodes styles numbering ns of
             Inl e \<Rightarrow> Inl e
           | Inr rs \<Rightarrow> Inr (r # rs)))"

text \<open>
  Modelled from the spec: the check of the style table's invariant (no inheritance
  cycles), whose code is not among the sources. It walks the chain of every style of the
  table, in table order, each walk with its own visited set, and stops at the first
  cycle.
\<close>

fun check_styles :: "StyleDefinition list \<Rightarrow> StyleDefinition list \<Rightarrow> ResolveError + unit" where
  "check_styles styles [] = Inr ()"
| "check_styles styles (st # rest) =
     (case walk styles [] (style_id st) of
        Inl e \<Rightarrow> Inl e
      | Inr f \<Rightarrow> check_styles styles rest)"

text \<open>
  Modelled from the spec: \<open>resolve(tree, styles, numbering)\<close>, whose code is not among
  the sources. A style table that contains a cycle makes \<open>resolve\<close> fail with
  \<open>CyclicStyle\<close> whatever the tree refers to, so the table is checked first; then the
  tree is resolved node by node.
\<close>

definition resolve ::
  "DocumentNode list \<Rightarrow> StyleDefinition list \<Rightarrow> NumberingDefinition list
     \<Rightarrow> ResolveError + ResolvedNode list" where
  "resolve tree styles numbering =
     (case check_styles styles styles of
        Inl e \<Rightarrow> Inl e
      | Inr u \<Rightarrow> resolve_nodes styles numbering tree)"

subsection \<open>Inheritance chains and cycles\<close>

definition parent_of :: "StyleDefinition list \<Rightarrow> string \<Rightarrow> string option" where
  "parent_of styles sid = (case lookup styles sid of None \<Rightarrow> None | Some st \<Rightarrow> parent st)"

text \<open>\<open>ancestor styles n sid\<close>: the style reached from \<open>sid\<close> by \<open>n\<close> parent steps.\<close>

fun ancestor :: "StyleDefinition list \<Rightarrow> nat \<Rightarrow> string \<Rightarrow> string option" where
  "ancestor styles 0 sid = Some sid"
| "ancestor styles (Suc n) sid =
     (case ancestor styles n sid of None \<Rightarrow> None | Some a \<Rightarrow> parent_of styles a)"

text \<open>The cyclic table of the specification: \<open>A\<close> has parent \<open>B\<close>, \<open>B\<close> has parent \<open>A\<close>.\<close>

definition style_A :: StyleDefinition where
  "style_A = \<lparr>style_id = ''A'', human_name = ''Alpha'', style_type = ParagraphStyle,
     parent = Some ''B'', attributes = unformatted\<lparr>bold := Some True\<rparr>\<rparr>"

definition style_B :: StyleDefinition where
  "style_B = \<lparr>style_id = ''B'', human_name = ''Beta'', style_type = ParagraphStyle,
     parent = Some ''A'', attributes = unformatted\<rparr>"

definition cyclic_styles :: "StyleDefinition list" where
  "cyclic_styles = [style_A, style_B]"

section \<open>Properties of the script\<close>

lemmas script_defs = run_def main_def import_block_def except_Exception_def try_block_def
  write_output_def open_w_def f_write_def call_convert_def get_convert_docx_def
  open_rb_read_def print_def sys_exit_def then_do_def init_def sys_argv_def Let_def

lemmas msg_defs = not_installed_msg_def usage_msg_def reading_msg_def converted_msg_def
  error_msg_def no_attribute_text_def cross_mark_def check_mark_def quoted_def

lemmas sample_defs = sample_world_def convert_ok_def convert_fail_def convert_panic_def
  convert_exit_def sample_docx_def ascii_stdout_def

subsection \<open>Errors\<close>

text \<open>
  Claim C1, amended. Whenever a statement of the \<open>try\<close> block (the progress line, the
  read of the input file, the conversion, the opening and writing of the output file, the
  printing of the result) raises an error \<open>e\<close> that is an instance of \<open>Exception\<close>, and
  standard output takes the error line, the script prints the cross mark followed by
  \<open>Error:\<close> and the text of \<open>e\<close> as its last line and exits with a non-zero status:
  1, or 120 when standard output cannot be flushed at the end.
\<close>

theorem error_reported:
  assumes "import_dm2xcod w = Inr m" and "params w = input_file # rest"
    and "try_block w m input_file (case rest of [] \<Rightarrow> None | out # others \<Rightarrow> Some out) init
           = (Inl e, s)"
    and "exception_text e = Some txt"
    and "stdout_write w (stdout s) ([CHR 0xE2, CHR 0x9D, CHR 0x8C] @ '' Error: '' @ txt) = None"
  shows "stdout (fst (run w)) = stdout s @ [[CHR 0xE2, CHR 0x9D, CHR 0x8C] @ '' Error: '' @ txt]
       \<and> snd (run w) =
           (if stdout_flush w (stdout s @ [[CHR 0xE2, CHR 0x9D, CHR 0x8C] @ '' Error: '' @ txt])
            then 1 else 120)"
proof -
  have out: "(if length (sys_argv w) > 2 then Some (sys_argv w ! 2) else None)
      = (case rest of [] \<Rightarrow> None | out # others \<Rightarrow> Some out)"
    using assms(2) by (simp add: sys_argv_def split: list.splits)
  have "main w = (Inl (SystemExit 1),
      s\<lparr>stdout := stdout s @ [[CHR 0xE2, CHR 0x9D, CHR 0x8C] @ '' Error: '' @ txt]\<rparr>)"
    unfolding main_def Let_def out
    using assms
    by (simp add: import_block_def except_Exception_def then_do_def print_def sys_exit_def
          sys_argv_def error_msg_def cross_mark_def)
  then show ?thesis by (simp add: run_def)
qed

text \<open>
  Runs of C1: the conversion function rejects the bytes; the input file does not exist;
  the output file cannot be opened; standard output does not take the result.
\<close>

theorem error_reported_witness:
  "stdout (fst (run (sample_world\<lparr>import_dm2xcod := Inr (Some convert_fail)\<rparr>)))
     = [''Reading '' @ [CHR 0x27] @ ''report.docx'' @ [CHR 0x27] @ '' as bytes...'',
        [CHR 0xE2, CHR 0x9D, CHR 0x8C] @ '' Error: not a document container'']
   \<and> snd (run (sample_world\<lparr>import_dm2xcod := Inr (Some convert_fail)\<rparr>)) = 1
   \<and> last (stdout (fst (run (sample_world\<lparr>params := [''absent.docx'']\<rparr>))))
     = [CHR 0xE2, CHR 0x9D, CHR 0x8C] @ '' Error: No such file or directory''
   \<and> snd (run (sample_world\<lparr>params := [''absent.docx'']\<rparr>)) = 1
   \<and> last (stdout (fst (run (sample_world\<lparr>params := [''report.docx'', ''out.md''],
          open_write := (\<lambda>p. Some (Exception ''Permission denied''))\<rparr>))))
     = [CHR 0xE2, CHR 0x9D, CHR 0x8C] @ '' Error: Permission denied''
   \<and> last (stdout (fst (run (sample_world\<lparr>stdout_write :=
          (\<lambda>ls l. if l = ''# Title'' then Some (Exception ''cannot encode'') else None)\<rparr>))))
     = [CHR 0xE2, CHR 0x9D, CHR 0x8C] @ '' Error: cannot encode''"
  using
    error_reported [of "sample_world\<lparr>import_dm2xcod := Inr (Some convert_fail)\<rparr>"
      "Some convert_fail" "''report.docx''" "[]" "Exception ''not a document container''"
      "init\<lparr>stdout := [reading_msg ''report.docx''], reads := [''report.docx''],
         calls := [sample_docx]\<rparr>" "''not a document container''"]
    error_reported [of "sample_world\<lparr>params := [''absent.docx'']\<rparr>"
      "Some convert_ok" "''absent.docx''" "[]" "Exception ''No such file or directory''"
      "init\<lparr>stdout := [reading_msg ''absent.docx''], reads := [''absent.docx'']\<rparr>"
      "''No such file or directory''"]
    error_reported [of "sample_world\<lparr>params := [''report.docx'', ''out.md''],
          open_write := (\<lambda>p. Some (Exception ''Permission denied''))\<rparr>"
      "Some convert_ok" "''report.docx''" "[''out.md'']" "Exception ''Permission denied''"
      "init\<lparr>stdout := [reading_msg ''report.docx''], reads := [''report.docx''],
         calls := [sample_docx]\<rparr>" "''Permission denied''"]
    error_reported [of "sample_world\<lparr>stdout_write :=
          (\<lambda>ls l. if l = ''# Title'' then Some (Exception ''cannot encode'') else None)\<rparr>"
      "Some convert_ok" "''report.docx''" "[]" "Exception ''cannot encode''"
      "init\<lparr>stdout := [reading_msg ''report.docx''], reads := [''report.docx''],
         calls := [sample_docx]\<rparr>" "''cannot encode''"]
  by (simp add: sample_defs try_block_def write_output_def open_w_def f_write_def
        call_convert_def get_convert_docx_def open_rb_read_def print_def then_do_def init_def
        msg_defs)

text \<open>
  Claim C1 as stated fails: an error of the conversion that is not an instance of
  \<open>Exception\<close> passes the handler, and no error line is printed; an error line that
  standard output does not take is not printed; and when standard output cannot be
  flushed the status is 120, not 1.
\<close>

theorem error_reported_counterexample:
  "stdout (fst (run (sample_world\<lparr>import_dm2xcod := Inr (Some convert_panic)\<rparr>)))
     = [''Reading '' @ [CHR 0x27] @ ''report.docx'' @ [CHR 0x27] @ '' as bytes...'']
   \<and> calls (fst (run (sample_world\<lparr>import_dm2xcod := Inr (Some convert_panic)\<rparr>)))
     = [sample_docx]
   \<and> convert_panic sample_docx = Inl (BaseException ''PanicException: index out of bounds'')
   \<and> stdout (fst (run (sample_world\<lparr>import_dm2xcod := Inr (Some convert_fail),
        stdout_write := ascii_stdout\<rparr>)))
     = [''Reading '' @ [CHR 0x27] @ ''report.docx'' @ [CHR 0x27] @ '' as bytes...'']
   \<and> snd (run (sample_world\<lparr>import_dm2xcod := Inr (Some convert_fail),
        stdout_flush := (\<lambda>ls. ls = [])\<rparr>)) = 120"
  by (simp add: script_defs sample_defs msg_defs)

text \<open>
  Claim C2. When the conversion function raises, the script creates and writes no file,
  whether or not an output path was given, and \<open>main\<close> does not return normally. The
  exit status is 0 only if the error raised, or an error raised while the error line is
  printed, is a \<open>SystemExit\<close> with a status code of 0. Where the error is an instance of
  \<open>Exception\<close> and standard output takes the error line and can be flushed, the
  script prints the progress line and the error line and exits with status 1.
\<close>

theorem failed_conversion_writes_nothing:
  assumes "import_dm2xcod w = Inr (Some convert_docx)" and "params w = input_file # rest"
    and "stdout_write w []
           (''Reading '' @ [CHR 0x27] @ input_file @ [CHR 0x27] @ '' as bytes...'') = None"
    and "read_file w input_file = Inr data" and "convert_docx data = Inl e"
  shows "files (fst (run w)) = Map.empty \<and> fst (main w) \<noteq> Inr ()
       \<and> (snd (run w) = 0 \<longrightarrow>
            (\<exists>n. n mod 256 = 0 \<and>
               (e = SystemExit n \<or>
                (\<exists>txt. exception_text e = Some txt \<and>
                   stdout_write w
                     [''Reading '' @ [CHR 0x27] @ input_file @ [CHR 0x27] @ '' as bytes...'']
                     ([CHR 0xE2, CHR 0x9D, CHR 0x8C] @ '' Error: '' @ txt)
                   = Some (SystemExit n)))))
       \<and> (\<forall>txt. exception_text e = Some txt
             \<and> stdout_write w
                 [''Reading '' @ [CHR 0x27] @ input_file @ [CHR 0x27] @ '' as bytes...'']
                 ([CHR 0xE2, CHR 0x9D, CHR 0x8C] @ '' Error: '' @ txt) = None
             \<and> stdout_flush w
                 [''Reading '' @ [CHR 0x27] @ input_file @ [CHR 0x27] @ '' as bytes...'',
                  [CHR 0xE2, CHR 0x9D, CHR 0x8C] @ '' Error: '' @ txt]
           \<longrightarrow> snd (run w) = 1
             \<and> stdout (fst (run w)) =
                 [''Reading '' @ [CHR 0x27] @ input_file @ [CHR 0x27] @ '' as bytes...'',
                  [CHR 0xE2, CHR 0x9D, CHR 0x8C] @ '' Error: '' @ txt])"
proof -
  have body: "try_block w (Some convert_docx) input_file
        (if length (sys_argv w) > 2 then Some (sys_argv w ! 2) else None) init
      = (Inl e, init\<lparr>stdout := [reading_msg input_file], reads := [input_file],
           calls := [data]\<rparr>)"
    using assms
    by (simp add: try_block_def then_do_def print_def open_rb_read_def get_convert_docx_def
          call_convert_def init_def reading_msg_def quoted_def)
  have m: "main w = except_Exception w
      (Inl e, init\<lparr>stdout := [reading_msg input_file], reads := [input_file],
         calls := [data]\<rparr>)"
    using assms(1,2) body
    by (simp add: main_def import_block_def then_do_def sys_argv_def Let_def)
  show ?thesis
  proof (cases e)
    case (SystemExit n)
    with m show ?thesis
      by (simp add: run_def except_Exception_def init_def reading_msg_def quoted_def)
  next
    case (BaseException t)
    with m show ?thesis
      by (simp add: run_def except_Exception_def init_def reading_msg_def quoted_def)
  next
    case (ImportError t)
    with m show ?thesis
      by (cases "stdout_write w [reading_msg input_file] (error_msg t)";
          cases "the (stdout_write w [reading_msg input_file] (error_msg t))")
         (auto simp: run_def except_Exception_def then_do_def print_def sys_exit_def init_def
            msg_defs)
  next
    case (Exception t)
    with m show ?thesis
      by (cases "stdout_write w [reading_msg input_file] (error_msg t)";
          cases "the (stdout_write w [reading_msg input_file] (error_msg t))")
         (auto simp: run_def except_Exception_def then_do_def print_def sys_exit_def init_def
            msg_defs)
  qed
qed

text \<open>A run of C2, with the output path \<open>out.md\<close> given.\<close>

theorem failed_conversion_writes_nothing_witness:
  "files (fst (run (sample_world\<lparr>params := [''report.docx'', ''out.md''],
       import_dm2xcod := Inr (Some convert_fail)\<rparr>))) = Map.empty
   \<and> snd (run (sample_world\<lparr>params := [''report.docx'', ''out.md''],
       import_dm2xcod := Inr (Some convert_fail)\<rparr>)) = 1
   \<and> stdout (fst (run (sample_world\<lparr>params := [''report.docx'', ''out.md''],
       import_dm2xcod := Inr (Some convert_fail)\<rparr>)))
     = [''Reading '' @ [CHR 0x27] @ ''report.docx'' @ [CHR 0x27] @ '' as bytes...'',
        [CHR 0xE2, CHR 0x9D, CHR 0x8C] @ '' Error: not a document container'']"
  using failed_conversion_writes_nothing
    [of "sample_world\<lparr>params := [''report.docx'', ''out.md''],
           import_dm2xcod := Inr (Some convert_fail)\<rparr>"
        convert_fail "''report.docx''" "[''out.md'']" sample_docx
        "Exception ''not a document container''"]
  by (simp add: sample_defs)

subsection \<open>Input\<close>

text \<open>
  Claim C3, amended. In every run with an input path in which the module imports and has
  the function \<open>convert_docx\<close>, standard output takes the progress line and the input
  file can be read, the script reads exactly that file, once, and
  calls \<open>convert_docx\<close> exactly once, with the bytes read as its argument.
\<close>

theorem bytes_forwarded:
  assumes "import_dm2xcod w = Inr (Some convert_docx)" and "params w = input_file # rest"
    and "stdout_write w []
           (''Reading '' @ [CHR 0x27] @ input_file @ [CHR 0x27] @ '' as bytes...'') = None"
    and "read_file w input_file = Inr data"
  shows "reads (fst (run w)) = [input_file] \<and> calls (fst (run w)) = [data]"
proof -
  have "\<exists>r s. try_block w (Some convert_docx) input_file
        (if length (sys_argv w) > 2 then Some (sys_argv w ! 2) else None) init = (r, s)
      \<and> reads s = [input_file] \<and> calls s = [data]"
    using assms(3,4)
    by (cases "convert_docx data")
       (auto simp: try_block_def write_output_def open_w_def f_write_def call_convert_def
          get_convert_docx_def open_rb_read_def print_def then_do_def init_def
          reading_msg_def quoted_def split: option.splits)
  then obtain r s where body: "try_block w (Some convert_docx) input_file
        (if length (sys_argv w) > 2 then Some (sys_argv w ! 2) else None) init = (r, s)"
    and rs: "reads s = [input_file]" "calls s = [data]"
    by blast
  have "main w = except_Exception w (r, s)"
    using assms(1,2) body
    by (simp add: main_def import_block_def then_do_def sys_argv_def Let_def)
  with rs show ?thesis
    by (auto simp: run_def except_Exception_def then_do_def print_def sys_exit_def
          split: sum.splits option.splits)
qed

text \<open>A run of C3: the four bytes of \<open>report.docx\<close> reach \<open>convert_docx\<close>.\<close>

theorem bytes_forwarded_witness:
  "reads (fst (run sample_world)) = [''report.docx'']
   \<and> calls (fst (run sample_world)) = [sample_docx]"
  using bytes_forwarded [of sample_world convert_ok "''report.docx''" "[]" sample_docx]
  by (simp add: sample_defs)

text \<open>
  Claim C3 as stated fails. With an input path given, the script reads nothing and calls
  nothing when the module is missing or when standard output does not take the progress
  line, and it reads the file but calls nothing when the file cannot be read or the module
  has no \<open>convert_docx\<close>.
\<close>

theorem bytes_forwarded_counterexample:
  "params (sample_world\<lparr>import_dm2xcod := Inl (ImportError ''No module named dm2xcod'')\<rparr>)
     = [''report.docx'']
   \<and> reads (fst (run (sample_world\<lparr>import_dm2xcod :=
          Inl (ImportError ''No module named dm2xcod'')\<rparr>))) = []
   \<and> calls (fst (run (sample_world\<lparr>import_dm2xcod :=
          Inl (ImportError ''No module named dm2xcod'')\<rparr>))) = []
   \<and> reads (fst (run (sample_world\<lparr>stdout_write :=
          (\<lambda>ls l. Some (Exception ''I/O operation on closed file''))\<rparr>))) = []
   \<and> reads (fst (run (sample_world\<lparr>params := [''absent.docx'']\<rparr>))) = [''absent.docx'']
   \<and> calls (fst (run (sample_world\<lparr>params := [''absent.docx'']\<rparr>))) = []
   \<and> reads (fst (run (sample_world\<lparr>import_dm2xcod := Inr None\<rparr>))) = [''report.docx'']
   \<and> calls (fst (run (sample_world\<lparr>import_dm2xcod := Inr None\<rparr>))) = []"
  by (simp add: script_defs sample_defs)

subsection \<open>Output\<close>

text \<open>
  Claim C4, amended. In every run with a non-empty output path in which the
  conversion succeeds and the output file can be opened and written, the script opens
  that path for writing as UTF-8 text and writes exactly the returned string to it, and
  it writes no other file. Where standard output also takes the confirmation line and can
  be flushed, the script prints the progress line and the confirmation line and exits
  with status 0.
\<close>

theorem output_written:
  assumes "import_dm2xcod w = Inr (Some convert_docx)"
    and "params w = input_file # out # rest"
    and "stdout_write w []
           (''Reading '' @ [CHR 0x27] @ input_file @ [CHR 0x27] @ '' as bytes...'') = None"
    and "read_file w input_file = Inr data" and "convert_docx data = Inr markdown"
    and "out \<noteq> []" and "open_write w out = None" and "write_text w out markdown = None"
  shows "files (fst (run w)) = [out \<mapsto> markdown]
       \<and> (stdout_write w
             [''Reading '' @ [CHR 0x27] @ input_file @ [CHR 0x27] @ '' as bytes...'']
             ([CHR 0xE2, CHR 0x9C, CHR 0x85] @ '' Converted '' @ [CHR 0x27] @ input_file
                @ [CHR 0x27] @ '' to '' @ [CHR 0x27] @ out @ [CHR 0x27]) = None
           \<and> stdout_flush w
               [''Reading '' @ [CHR 0x27] @ input_file @ [CHR 0x27] @ '' as bytes...'',
                [CHR 0xE2, CHR 0x9C, CHR 0x85] @ '' Converted '' @ [CHR 0x27] @ input_file
                  @ [CHR 0x27] @ '' to '' @ [CHR 0x27] @ out @ [CHR 0x27]]
          \<longrightarrow> snd (run w) = 0
            \<and> stdout (fst (run w)) =
               [''Reading '' @ [CHR 0x27] @ input_file @ [CHR 0x27] @ '' as bytes...'',
                [CHR 0xE2, CHR 0x9C, CHR 0x85] @ '' Converted '' @ [CHR 0x27] @ input_file
                  @ [CHR 0x27] @ '' to '' @ [CHR 0x27] @ out @ [CHR 0x27]])"
proof -
  have body: "try_block w (Some convert_docx) input_file
        (if length (sys_argv w) > 2 then Some (sys_argv w ! 2) else None) init
      = print w (converted_msg input_file out)
          (init\<lparr>stdout := [reading_msg input_file], reads := [input_file], calls := [data],
             files := [out \<mapsto> markdown]\<rparr>)"
    using assms
    by (simp add: try_block_def write_output_def open_w_def f_write_def call_convert_def
          get_convert_docx_def open_rb_read_def print_def then_do_def init_def sys_argv_def
          reading_msg_def quoted_def split: option.splits)
  have m: "main w = except_Exception w (print w (converted_msg input_file out)
          (init\<lparr>stdout := [reading_msg input_file], reads := [input_file], calls := [data],
             files := [out \<mapsto> markdown]\<rparr>))"
    using assms(1,2) body
    by (simp add: main_def import_block_def then_do_def sys_argv_def Let_def)
  show ?thesis
    unfolding run_def m
    by (auto simp: except_Exception_def then_do_def print_def sys_exit_def init_def msg_defs
          split: sum.splits option.splits)
qed

text \<open>A run of C4: \<open>demo.py report.docx out.md\<close>.\<close>

theorem output_written_witness:
  "files (fst (run (sample_world\<lparr>params := [''report.docx'', ''out.md'']\<rparr>)))
     = [''out.md'' \<mapsto> ''# Title'']
   \<and> snd (run (sample_world\<lparr>params := [''report.docx'', ''out.md'']\<rparr>)) = 0
   \<and> stdout (fst (run (sample_world\<lparr>params := [''report.docx'', ''out.md'']\<rparr>)))
     = [''Reading '' @ [CHR 0x27] @ ''report.docx'' @ [CHR 0x27] @ '' as bytes...'',
        [CHR 0xE2, CHR 0x9C, CHR 0x85] @ '' Converted '' @ [CHR 0x27] @ ''report.docx''
          @ [CHR 0x27] @ '' to '' @ [CHR 0x27] @ ''out.md'' @ [CHR 0x27]]"
  using output_written [of "sample_world\<lparr>params := [''report.docx'', ''out.md'']\<rparr>" convert_ok
      "''report.docx''" "''out.md''" "[]" sample_docx "''# Title''"]
  by (simp add: sample_defs)

text \<open>
  Claim C4 as stated fails: an empty second argument is false in \<open>if output_file:\<close>, so
  the text is printed and no file is written; and an output path that cannot be opened
  is not written either.
\<close>

theorem output_written_counterexample:
  "params (sample_world\<lparr>params := [''report.docx'', []]\<rparr>) = [''report.docx'', []]
   \<and> snd (run (sample_world\<lparr>params := [''report.docx'', []]\<rparr>)) = 0
   \<and> files (fst (run (sample_world\<lparr>params := [''report.docx'', []]\<rparr>))) = Map.empty
   \<and> stdout (fst (run (sample_world\<lparr>params := [''report.docx'', []]\<rparr>)))
       = [''Reading '' @ [CHR 0x27] @ ''report.docx'' @ [CHR 0x27] @ '' as bytes...'',
          ''# Title'']
   \<and> files (fst (run (sample_world\<lparr>params := [''report.docx'', ''out.md''],
        open_write := (\<lambda>p. Some (Exception ''Permission denied''))\<rparr>))) = Map.empty
   \<and> snd (run (sample_world\<lparr>params := [''report.docx'', ''out.md''],
        open_write := (\<lambda>p. Some (Exception ''Permission denied''))\<rparr>)) = 1"
  by (simp add: script_defs sample_defs msg_defs)

text \<open>
  Claim C5, amended. In every run with no output path, or an empty one, in which the
  conversion succeeds and standard output takes the returned text, the script prints two
  lines and nothing else: the progress line \<open>Reading '<input>' as bytes...\<close> and then
  the returned text. It writes no file, and it exits with status 0, or 120 when standard
  output cannot be flushed at the end.
\<close>

theorem stdout_is_progress_then_result:
  assumes "import_dm2xcod w = Inr (Some convert_docx)"
    and "params w = [input_file] \<or> (\<exists>rest. params w = input_file # [] # rest)"
    and "stdout_write w []
           (''Reading '' @ [CHR 0x27] @ input_file @ [CHR 0x27] @ '' as bytes...'') = None"
    and "read_file w input_file = Inr data" and "convert_docx data = Inr markdown"
    and "stdout_write w
           [''Reading '' @ [CHR 0x27] @ input_file @ [CHR 0x27] @ '' as bytes...''] markdown
         = None"
  shows "stdout (fst (run w)) =
           [''Reading '' @ [CHR 0x27] @ input_file @ [CHR 0x27] @ '' as bytes...'', markdown]
       \<and> stdout_text (fst (run w)) =
           ''Reading '' @ [CHR 0x27] @ input_file @ [CHR 0x27] @ '' as bytes...''
             @ [CHR 0x0A] @ markdown @ [CHR 0x0A]
       \<and> files (fst (run w)) = Map.empty
       \<and> snd (run w) =
           (if stdout_flush w
                 [''Reading '' @ [CHR 0x27] @ input_file @ [CHR 0x27] @ '' as bytes...'',
                  markdown]
            then 0 else 120)"
  using assms by (auto simp: script_defs msg_defs stdout_text_def)

text \<open>Runs of C5: \<open>demo.py report.docx\<close>, and the same with an empty second argument.\<close>

theorem stdout_is_progress_then_result_witness:
  "stdout (fst (run sample_world))
     = [''Reading '' @ [CHR 0x27] @ ''report.docx'' @ [CHR 0x27] @ '' as bytes...'',
        ''# Title'']
   \<and> snd (run sample_world) = 0
   \<and> stdout (fst (run (sample_world\<lparr>params := [''report.docx'', []]\<rparr>)))
     = [''Reading '' @ [CHR 0x27] @ ''report.docx'' @ [CHR 0x27] @ '' as bytes...'',
        ''# Title'']"
  using
    stdout_is_progress_then_result
      [of sample_world convert_ok "''report.docx''" sample_docx "''# Title''"]
    stdout_is_progress_then_result
      [of "sample_world\<lparr>params := [''report.docx'', []]\<rparr>" convert_ok "''report.docx''"
          sample_docx "''# Title''"]
  by (simp add: sample_defs)

text \<open>
  Claim C5 as stated fails: standard output holds the progress line before the returned
  text, so it is not the returned text and nothing besides it; and when standard output
  does not take the returned text, it holds the progress line and the error line only.
\<close>

theorem stdout_is_progress_then_result_counterexample:
  "params sample_world = [''report.docx'']
   \<and> snd (run sample_world) = 0
   \<and> calls (fst (run sample_world)) = [sample_docx]
   \<and> convert_ok sample_docx = Inr ''# Title''
   \<and> stdout (fst (run sample_world))
       = [''Reading '' @ [CHR 0x27] @ ''report.docx'' @ [CHR 0x27] @ '' as bytes...'',
          ''# Title'']
   \<and> stdout_text (fst (run sample_world)) \<noteq> ''# Title''
   \<and> stdout_text (fst (run sample_world)) \<noteq> ''# Title'' @ [CHR 0x0A]
   \<and> stdout (fst (run (sample_world\<lparr>stdout_write :=
          (\<lambda>ls l. if l = ''# Title'' then Some (Exception ''cannot encode'') else None)\<rparr>)))
       = [''Reading '' @ [CHR 0x27] @ ''report.docx'' @ [CHR 0x27] @ '' as bytes...'',
          [CHR 0xE2, CHR 0x9D, CHR 0x8C] @ '' Error: cannot encode'']
   \<and> snd (run (sample_world\<lparr>stdout_write :=
          (\<lambda>ls l. if l = ''# Title'' then Some (Exception ''cannot encode'') else None)\<rparr>))
       = 1"
  by (simp add: script_defs sample_defs msg_defs stdout_text_def)

subsection \<open>Early exits\<close>

text \<open>
  Claim C8, amended. In every run with no argument in which the module imports and
  standard output takes the usage line, the script prints the usage line and nothing
  else; it reads no file, calls no conversion and writes no file, and it exits with
  status 1, or 120 when standard output cannot be flushed at the end.
\<close>

theorem usage_without_input:
  assumes "import_dm2xcod w = Inr m" and "params w = []"
    and "stdout_write w [] (''Usage: '' @ argv0 w @ '' <input.docx> [output.md]'') = None"
  shows "stdout (fst (run w)) = [''Usage: '' @ argv0 w @ '' <input.docx> [output.md]'']
       \<and> reads (fst (run w)) = [] \<and> calls (fst (run w)) = []
       \<and> files (fst (run w)) = Map.empty
       \<and> snd (run w) =
           (if stdout_flush w [''Usage: '' @ argv0 w @ '' <input.docx> [output.md]'']
            then 1 else 120)"
  using assms by (simp add: script_defs msg_defs)

text \<open>A run of C8: \<open>demo.py\<close> alone.\<close>

theorem usage_without_input_witness:
  "stdout (fst (run (sample_world\<lparr>params := []\<rparr>)))
     = [''Usage: demo.py <input.docx> [output.md]'']
   \<and> snd (run (sample_world\<lparr>params := []\<rparr>)) = 1
   \<and> reads (fst (run (sample_world\<lparr>params := []\<rparr>))) = []"
  using usage_without_input [of "sample_world\<lparr>params := []\<rparr>" "Some convert_ok"]
  by (simp add: sample_defs)

text \<open>
  Claim C8 as stated fails: with no argument and the module missing, the script prints
  the installation hint, not the usage line; a standard output that is closed gets no
  usage line; and a standard output that cannot be flushed makes the status 120.
\<close>

theorem usage_without_input_counterexample:
  "params (sample_world\<lparr>params := [],
       import_dm2xcod := Inl (ImportError ''No module named dm2xcod'')\<rparr>) = []
   \<and> stdout (fst (run (sample_world\<lparr>params := [],
       import_dm2xcod := Inl (ImportError ''No module named dm2xcod'')\<rparr>)))
     = [[CHR 0xE2, CHR 0x9D, CHR 0x8C]
          @ '' dm2xcod not installed. Install with: pip install dm2xcod'']
   \<and> stdout (fst (run (sample_world\<lparr>params := [],
       stdout_write := (\<lambda>ls l. Some (Exception ''I/O operation on closed file''))\<rparr>))) = []
   \<and> snd (run (sample_world\<lparr>params := [], stdout_flush := (\<lambda>ls. ls = [])\<rparr>)) = 120"
  by (simp add: script_defs sample_defs msg_defs)

text \<open>
  Claim C9, amended. Whenever the import fails, the script reads no file, calls nothing
  and writes no file, and the run does not depend on the command-line arguments. Where
  the import raises \<open>ImportError\<close> and standard output takes the hint, the script prints
  the installation hint and nothing else and exits with status 1, or 120 when standard
  output cannot be flushed at the end.
\<close>

theorem missing_module:
  assumes "import_dm2xcod w = Inl e"
  shows "reads (fst (run w)) = [] \<and> calls (fst (run w)) = []
       \<and> files (fst (run w)) = Map.empty
       \<and> run (w\<lparr>argv0 := a, params := ps\<rparr>) = run w
       \<and> (is_import_error e
           \<and> stdout_write w []
               ([CHR 0xE2, CHR 0x9D, CHR 0x8C]
                  @ '' dm2xcod not installed. Install with: pip install dm2xcod'') = None
          \<longrightarrow> stdout (fst (run w)) =
               [[CHR 0xE2, CHR 0x9D, CHR 0x8C]
                  @ '' dm2xcod not installed. Install with: pip install dm2xcod'']
            \<and> snd (run w) =
               (if stdout_flush w
                     [[CHR 0xE2, CHR 0x9D, CHR 0x8C]
                        @ '' dm2xcod not installed. Install with: pip install dm2xcod'']
                then 1 else 120))"
  using assms by (auto simp: script_defs msg_defs split: option.splits)

text \<open>A run of C9: the sample world without the module.\<close>

theorem missing_module_witness:
  "stdout (fst (run (sample_world\<lparr>import_dm2xcod :=
       Inl (ImportError ''No module named dm2xcod'')\<rparr>)))
     = [[CHR 0xE2, CHR 0x9D, CHR 0x8C]
          @ '' dm2xcod not installed. Install with: pip install dm2xcod'']
   \<and> snd (run (sample_world\<lparr>import_dm2xcod :=
       Inl (ImportError ''No module named dm2xcod'')\<rparr>)) = 1
   \<and> reads (fst (run (sample_world\<lparr>import_dm2xcod :=
       Inl (ImportError ''No module named dm2xcod'')\<rparr>))) = []"
  using missing_module [of "sample_world\<lparr>import_dm2xcod :=
       Inl (ImportError ''No module named dm2xcod'')\<rparr>" "ImportError ''No module named dm2xcod''"]
  by (simp add: sample_defs)

text \<open>
  Claim C9 as stated fails: an import that fails with an error other than
  \<open>ImportError\<close> is not caught and no hint is printed; a standard output that takes
  ASCII text only does not take the hint, which starts with the cross mark; and a
  standard output that cannot be flushed makes the status 120.
\<close>

theorem missing_module_counterexample:
  "stdout (fst (run (sample_world\<lparr>import_dm2xcod :=
       Inl (Exception ''cannot load shared library'')\<rparr>))) = []
   \<and> stdout (fst (run (sample_world\<lparr>import_dm2xcod :=
       Inl (ImportError ''No module named dm2xcod''), stdout_write := ascii_stdout\<rparr>))) = []
   \<and> snd (run (sample_world\<lparr>import_dm2xcod :=
       Inl (ImportError ''No module named dm2xcod''), stdout_flush := (\<lambda>ls. ls = [])\<rparr>))
     = 120"
  by (simp add: script_defs sample_defs msg_defs)

subsection \<open>Exit status\<close>







subsection \<open>Determinism\<close>





section \<open>Properties of the style resolver\<close>

subsection \<open>Parent steps\<close>

lemma ancestor_front:
  "ancestor styles (Suc n) sid =
     (case parent_of styles sid of None \<Rightarrow> None | Some p \<Rightarrow> ancestor styles n p)"
  by (induction n) (auto split: option.splits)

lemma ancestor_add:
  "ancestor styles (m + n) sid =
     (case ancestor styles m sid of None \<Rightarrow> None | Some a \<Rightarrow> ancestor styles n a)"
  by (induction n) (auto split: option.splits)

lemma ancestor_None_mono:
  assumes "ancestor styles m sid = None" and "m \<le> n"
  shows "ancestor styles n sid = None"
proof -
  from \<open>m \<le> n\<close> obtain d where "n = m + d" by (auto simp: le_iff_add)
  with assms(1) show ?thesis by (simp add: ancestor_add)
qed

lemma cycle_iter:
  assumes "ancestor styles n c = Some c"
  shows "ancestor styles (j * n) c = Some c"
proof (induction j)
  case 0
  show ?case by simp
next
  case (Suc j)
  have "ancestor styles (n + j * n) c = Some c"
    using assms Suc by (simp only: ancestor_add option.case)
  then show ?case by simp
qed

lemma cycle_never_ends:
  assumes "0 < n" and "ancestor styles n c = Some c"
  shows "ancestor styles k c \<noteq> None"
proof
  assume "ancestor styles k c = None"
  moreover have "k \<le> k * n" using \<open>0 < n\<close> by (cases n) auto
  ultimately have "ancestor styles (k * n) c = None"
    by (rule ancestor_None_mono)
  with cycle_iter [OF assms(2), of k] show False by simp
qed

text \<open>A style on a cycle is defined in the table.\<close>

lemma cycle_in_table:
  assumes "0 < n" and "ancestor styles n c = Some c"
  shows "\<exists>st \<in> set styles. style_id st = c"
proof -
  from cycle_never_ends [OF assms, of "Suc 0"] have "parent_of styles c \<noteq> None" by simp
  then obtain st where "lookup styles c = Some st"
    by (auto simp: parent_of_def split: option.splits)
  then show ?thesis by (auto simp: lookup_def find_Some_iff)
qed

subsection \<open>The walk\<close>

text \<open>A walk that succeeds has come to the end of the chain.\<close>

lemma walk_ok_chain_ends:
  "walk styles visited sid = Inr f \<Longrightarrow> \<exists>n. ancestor styles (Suc n) sid = None"
proof (induction styles visited sid arbitrary: f rule: walk.induct)
  case (1 styles visited sid)
  from "1.prems" have new: "sid \<notin> set visited"
    by (auto simp: walk.simps [of styles visited sid] split: if_splits)
  show ?case
  proof (cases "parent_of styles sid")
    case None
    then have "ancestor styles (Suc 0) sid = None" by simp
    then show ?thesis by blast
  next
    case (Some p)
    then obtain st where found: "lookup styles sid = Some st" and par: "parent st = Some p"
      by (auto simp: parent_of_def split: option.splits)
    with new "1.prems" obtain anc where rec: "walk styles (sid # visited) p = Inr anc"
      by (auto simp: walk.simps [of styles visited sid] split: sum.splits)
    from "1.IH" [OF new found par rec] obtain n where "ancestor styles (Suc n) p = None"
      by blast
    with Some have "ancestor styles (Suc (Suc n)) sid = None"
      by (simp only: ancestor_front [of styles "Suc n" sid] option.case)
    then show ?thesis by blast
  qed
qed

text \<open>
  A walk that started at \<open>s\<close> holds in \<open>visited\<close>, newest first, the identifiers it
  has passed, which are the first ancestors of \<open>s\<close> and all different. When it fails, it
  names the first identifier that the chain of \<open>s\<close> meets a second time.
\<close>

lemma walk_error_first_repeat:
  assumes "walk styles visited sid = Inl e"
    and "\<forall>k < length visited. ancestor styles k s = Some (rev visited ! k)"
    and "ancestor styles (length visited) s = Some sid"
    and "distinct visited"
  shows "\<exists>x i j. e = CyclicStyle x \<and> i < j
           \<and> ancestor styles i s = Some x \<and> ancestor styles j s = Some x
           \<and> (\<forall>k<j. \<forall>l<k. ancestor styles l s \<noteq> ancestor styles k s)"
  using assms
proof (induction styles visited sid rule: walk.induct)
  case (1 styles visited sid)
  note passed = "1.prems"(2) and here = "1.prems"(3) and dist = "1.prems"(4)
  show ?case
  proof (cases "sid \<in> set visited")
    case True
    with "1.prems"(1) have e: "e = CyclicStyle sid"
      by (simp add: walk.simps [of styles visited sid])
    from True have "sid \<in> set (rev visited)" by simp
    then obtain i where i': "i < length (rev visited)" and at: "rev visited ! i = sid"
      unfolding in_set_conv_nth by blast
    from i' have i: "i < length visited" by simp
    from passed i at have first: "ancestor styles i s = Some sid" by simp
    have "\<forall>k < length visited. \<forall>l<k. ancestor styles l s \<noteq> ancestor styles k s"
    proof (intro allI impI)
      fix k l
      assume k: "k < length visited" and l: "l < k"
      from dist have "distinct (rev visited)" by simp
      with k l have "rev visited ! l \<noteq> rev visited ! k"
        by (simp add: nth_eq_iff_index_eq)
      with passed k l show "ancestor styles l s \<noteq> ancestor styles k s" by simp
    qed
    with e i first here show ?thesis by blast
  next
    case False
    with "1.prems"(1) obtain st p where found: "lookup styles sid = Some st"
      and par: "parent st = Some p" and rec: "walk styles (sid # visited) p = Inl e"
      by (auto simp: walk.simps [of styles visited sid] split: option.splits sum.splits)
    from found par have step: "parent_of styles sid = Some p" by (simp add: parent_of_def)
    have passed': "\<forall>k < length (sid # visited).
        ancestor styles k s = Some (rev (sid # visited) ! k)"
    proof (intro allI impI)
      fix k
      assume "k < length (sid # visited)"
      then consider "k < length visited" | "k = length visited" by fastforce
      then show "ancestor styles k s = Some (rev (sid # visited) ! k)"
      proof cases
        case 1
        with passed show ?thesis by (simp add: nth_append)
      next
        case 2
        with here show ?thesis by (simp add: nth_append)
      qed
    qed
    from here step have here': "ancestor styles (length (sid # visited)) s = Some p" by simp
    from False dist have dist': "distinct (sid # visited)" by simp
    from "1.IH" [OF False found par rec passed' here' dist'] show ?thesis .
  qed
qed

subsection \<open>The check of the table\<close>

lemma check_styles_error:
  "check_styles styles ts = Inl e \<Longrightarrow>
     \<exists>pre st post. ts = pre @ st # post
       \<and> (\<forall>t \<in> set pre. \<exists>f. walk styles [] (style_id t) = Inr f)
       \<and> walk styles [] (style_id st) = Inl e"
proof (induction ts)
  case Nil
  then show ?case by simp
next
  case (Cons t ts)
  show ?case
  proof (cases "walk styles [] (style_id t)")
    case (Inl e')
    with Cons.prems have "e' = e" by simp
    with Inl have "t # ts = [] @ t # ts \<and> (\<forall>u \<in> set []. \<exists>f. walk styles [] (style_id u) = Inr f)
        \<and> walk styles [] (style_id t) = Inl e"
      by simp
    then show ?thesis by blast
  next
    case (Inr f)
    with Cons.prems have "check_styles styles ts = Inl e" by simp
    from Cons.IH [OF this] obtain pre st post where d: "ts = pre @ st # post"
      and ok: "\<forall>u \<in> set pre. \<exists>f. walk styles [] (style_id u) = Inr f"
      and bad: "walk styles [] (style_id st) = Inl e"
      by blast
    from d have "t # ts = (t # pre) @ st # post" by simp
    moreover from ok Inr have "\<forall>u \<in> set (t # pre). \<exists>f. walk styles [] (style_id u) = Inr f"
      by simp
    ultimately show ?thesis using bad by blast
  qed
qed

lemma check_styles_ok:
  "check_styles styles ts = Inr u \<Longrightarrow> t \<in> set ts \<Longrightarrow> \<exists>f. walk styles [] (style_id t) = Inr f"
  by (induction ts) (auto split: sum.splits)

subsection \<open>Cycles are reported\<close>

lemmas style_defs = cyclic_styles_def style_A_def style_B_def lookup_def parent_of_def
  unformatted_def

text \<open>
  Claim C7. The walk, and with it \<open>resolve\<close>, ends on every style table (the walk is a
  total function: see its termination proof). Whenever the style table contains an
  inheritance cycle, \<open>resolve\<close> returns the error \<open>CyclicStyle\<close>, whatever the tree.
  The identifier it names is the offending one of the first style of the table whose
  inheritance chain does not end: the first identifier that this chain meets a second
  time.
\<close>

theorem cycle_reported:
  assumes "0 < n" and "ancestor styles n c = Some c"
  shows "\<exists>pre st post x i j.
           styles = pre @ st # post
         \<and> (\<forall>t \<in> set pre. \<exists>k. ancestor styles k (style_id t) = None)
         \<and> i < j
         \<and> ancestor styles i (style_id st) = Some x
         \<and> ancestor styles j (style_id st) = Some x
         \<and> (\<forall>k<j. \<forall>l<k. ancestor styles l (style_id st) \<noteq> ancestor styles k (style_id st))
         \<and> resolve tree styles numbering = Inl (CyclicStyle x)"
proof -
  from cycle_in_table [OF assms] obtain sc where sc: "sc \<in> set styles" "style_id sc = c"
    by blast
  have "\<exists>e. check_styles styles styles = Inl e"
  proof (cases "check_styles styles styles")
    case (Inl e)
    then show ?thesis by blast
  next
    case (Inr u)
    from check_styles_ok [OF Inr sc(1)] sc(2) obtain f where "walk styles [] c = Inr f"
      by auto
    from walk_ok_chain_ends [OF this] cycle_never_ends [OF assms] show ?thesis by blast
  qed
  then obtain e where chk: "check_styles styles styles = Inl e" by blast
  from check_styles_error [OF chk] obtain pre st post where d: "styles = pre @ st # post"
    and ok: "\<forall>t \<in> set pre. \<exists>f. walk styles [] (style_id t) = Inr f"
    and bad: "walk styles [] (style_id st) = Inl e"
    by blast
  have ends: "\<forall>t \<in> set pre. \<exists>k. ancestor styles k (style_id t) = None"
  proof
    fix t
    assume "t \<in> set pre"
    with ok obtain f where "walk styles [] (style_id t) = Inr f" by blast
    from walk_ok_chain_ends [OF this] show "\<exists>k. ancestor styles k (style_id t) = None"
      by blast
  qed
  have "\<exists>x i j. e = CyclicStyle x \<and> i < j
      \<and> ancestor styles i (style_id st) = Some x \<and> ancestor styles j (style_id st) = Some x
      \<and> (\<forall>k<j. \<forall>l<k. ancestor styles l (style_id st) \<noteq> ancestor styles k (style_id st))"
    by (rule walk_error_first_repeat [OF bad]) simp_all
  then obtain x i j where e: "e = CyclicStyle x" and ij: "i < j"
    and first: "ancestor styles i (style_id st) = Some x"
    and again: "ancestor styles j (style_id st) = Some x"
    and fresh: "\<forall>k<j. \<forall>l<k. ancestor styles l (style_id st) \<noteq> ancestor styles k (style_id st)"
    by blast
  from chk e have "resolve tree styles numbering = Inl (CyclicStyle x)"
    by (simp add: resolve_def)
  with d ends ij first again fresh show ?thesis by blast
qed

text \<open>
  A run of C7: in the table where \<open>A\<close> and \<open>B\<close> are each other's parent, \<open>resolve\<close>
  fails with \<open>CyclicStyle\<close> on a tree that refers to no style at all; the walk from
  \<open>A\<close> passes \<open>A\<close> and \<open>B\<close> and meets \<open>A\<close> again.
\<close>

theorem cycle_reported_witness:
  "(0::nat) < 2 \<and> ancestor cyclic_styles 2 ''B'' = Some ''B''
   \<and> (\<exists>pre st post x i j.
         cyclic_styles = pre @ st # post
       \<and> (\<forall>t \<in> set pre. \<exists>k. ancestor cyclic_styles k (style_id t) = None)
       \<and> i < j
       \<and> ancestor cyclic_styles i (style_id st) = Some x
       \<and> ancestor cyclic_styles j (style_id st) = Some x
       \<and> (\<forall>k<j. \<forall>l<k. ancestor cyclic_styles l (style_id st)
              \<noteq> ancestor cyclic_styles k (style_id st))
       \<and> resolve [Paragraph None None [Run None unformatted ''hello'']] cyclic_styles []
           = Inl (CyclicStyle x))
   \<and> resolve [Paragraph None None [Run None unformatted ''hello'']] cyclic_styles []
       = Inl (CyclicStyle ''A'')"
proof -
  have pos: "(0::nat) < 2" by simp
  have loop: "ancestor cyclic_styles 2 ''B'' = Some ''B''"
    by (simp add: numeral_2_eq_2 style_defs)
  have named: "resolve [Paragraph None None [Run None unformatted ''hello'']] cyclic_styles []
      = Inl (CyclicStyle ''A'')"
    by (simp add: resolve_def style_defs walk.simps)
  from cycle_reported [OF pos loop,
      of "[Paragraph None None [Run None unformatted ''hello'']]" "[]"] pos loop named
  show ?thesis by blast
qed

end
